theory Spec2Isabelle
  imports Main
begin

section \<open>The image resizer script \<open>script/imageResize.py\<close>\<close>

text \<open>
  The script is three library calls in sequence:
  \<^verbatim>\<open>
  def ResizeImage(filein, fileout, width, height):
      img = Image.open(filein)
      out = img.resize((width, height),Image.ANTIALIAS)
      out.save(fileout)
  \<close>
  It has no \<open>try\<close>, no \<open>with\<close>, no \<open>close\<close> and no check of its own: whatever a
  library call raises leaves the function at once. The imaging library (PIL) is not
  part of the repository, so its three operations are parameters of the model; what the
  script does is stated for every library, and the library's documented behaviour enters
  as named contracts.
\<close>

subsection \<open>The world the script runs in\<close>

type_synonym path = string

text \<open>
  The filesystem maps the canonical name of a file to the bytes stored there;
  \<open>handles\<close> lists, by canonical name, the files on which the process holds an open file
  object (a file opened twice is listed twice). A path string is not a file: several
  strings name one file (\<open>a/b\<close>, \<open>./a/b\<close>, \<open>a//b\<close>), and the platform's \<open>realpath\<close>, below,
  says which.
\<close>

record 'b world =
  files :: "path \<rightharpoonup> 'b"
  handles :: "path list"

text \<open>The resampling filters of \<open>PIL.Image\<close>; the script names \<open>ANTIALIAS\<close>.\<close>

datatype resample = NEAREST | BOX | BILINEAR | HAMMING | BICUBIC | ANTIALIAS

text \<open>
  The library and the platform under it: \<open>Image.open\<close>, \<open>Image.resize\<close>, \<open>Image.save\<close>,
  each returning the exception it raises (\<open>Inl\<close>) or its value (\<open>Inr\<close>) together with the
  world it leaves behind, also when it raises; \<open>realpath\<close>, the canonical name of the file
  a path string names; and what can be observed of an image object: its \<open>size\<close>
  attribute, the file it still holds open (\<open>img_fp\<close>), whether its mode is one of the
  indexed ones (\<open>P\<close>, \<open>1\<close>), and the filter that computed its pixels, if any.
\<close>

record ('b, 'img, 'e) pil =
  Image_open :: "path \<Rightarrow> 'b world \<Rightarrow> ('e + 'img) \<times> 'b world"
  resize :: "'img \<Rightarrow> int \<times> int \<Rightarrow> resample \<Rightarrow> 'b world \<Rightarrow> ('e + 'img) \<times> 'b world"
  save :: "'img \<Rightarrow> path \<Rightarrow> 'b world \<Rightarrow> ('e + unit) \<times> 'b world"
  img_size :: "'img \<Rightarrow> int \<times> int"
  realpath :: "path \<Rightarrow> path"
  img_fp :: "'img \<Rightarrow> path option"
  img_indexed :: "'img \<Rightarrow> bool"
  img_resampled :: "'img \<Rightarrow> resample option"

subsection \<open>The script\<close>

definition ResizeImage ::
  "('b, 'img, 'e) pil \<Rightarrow> path \<Rightarrow> path \<Rightarrow> int \<Rightarrow> int \<Rightarrow> 'b world \<Rightarrow> ('e + unit) \<times> 'b world" where
  "ResizeImage L filein fileout width height w =
     (case Image_open L filein w of
        (Inl e, w1) \<Rightarrow> (Inl e, w1)
      | (Inr img, w1) \<Rightarrow>
          (case resize L img (width, height) ANTIALIAS w1 of
             (Inl e, w2) \<Rightarrow> (Inl e, w2)
           | (Inr out, w2) \<Rightarrow> save L out fileout w2))"

text \<open>
  The module body: the call sits under \<open>if __name__ == "__main__"\<close>, with literal
  arguments (the paths are raw strings and keep their doubled slashes).
\<close>

definition module_body ::
  "string \<Rightarrow> ('b, 'img, 'e) pil \<Rightarrow> 'b world \<Rightarrow> ('e + unit) \<times> 'b world" where
  "module_body name L w =
     (if name = ''__main__'' then
        (let filein = ''../assets//resized//prof_pic_yh.jpeg'';
             fileout = ''../assets//resized//prof_pic-480x659.jpeg'';
             width = 480;
             height = 659
         in ResizeImage L filein fileout width height w)
      else (Inr (), w))"

subsection \<open>What the library documents, as contracts\<close>

text \<open>
  Each contract is one documented fact about a library call. A theorem about the script
  assumes only the contracts it uses.
\<close>

definition open_reads_only :: "('b, 'img, 'e) pil \<Rightarrow> bool" where
  \<comment> \<open>\<open>Image.open\<close> opens its file for reading: no file changes.\<close>
  "open_reads_only L = (\<forall>p w. files (snd (Image_open L p w)) = files w)"

definition resize_reads_only :: "('b, 'img, 'e) pil \<Rightarrow> bool" where
  \<comment> \<open>\<open>resize\<close> loads the pixel data and works in memory: no file changes.\<close>
  "resize_reads_only L = (\<forall>img sz f w. files (snd (resize L img sz f w)) = files w)"

definition save_writes_own_file :: "('b, 'img, 'e) pil \<Rightarrow> bool" where
  \<comment> \<open>\<open>save\<close> changes the file its path names and no other file.\<close>
  "save_writes_own_file L =
     (\<forall>img p w k. k \<noteq> realpath L p \<longrightarrow> files (snd (save L img p w)) k = files w k)"

definition resize_exact :: "('b, 'img, 'e) pil \<Rightarrow> bool" where
  \<comment> \<open>The image \<open>resize\<close> returns has the requested size.\<close>
  "resize_exact L =
     (\<forall>img sz f w out w'. resize L img sz f w = (Inr out, w') \<longrightarrow> img_size L out = sz)"


definition resize_rejects_nonpositive :: "('b, 'img, 'e) pil \<Rightarrow> bool" where
  \<comment> \<open>\<open>resize\<close> raises when a side of the requested size is below 1.\<close>
  "resize_rejects_nonpositive L =
     (\<forall>img wd ht f w. wd < 1 \<or> ht < 1 \<longrightarrow> (\<exists>e w'. resize L img (wd, ht) f w = (Inl e, w')))"

definition save_then_open :: "('b, 'img, 'e) pil \<Rightarrow> bool" where
  \<comment> \<open>A file that \<open>save\<close> wrote opens again, as an image of the size saved.\<close>
  "save_then_open L =
     (\<forall>img p w w'. save L img p w = (Inr (), w') \<longrightarrow>
        (\<exists>img' w''. Image_open L p w' = (Inr img', w'') \<and> img_size L img' = img_size L img))"

definition written_reopens :: "('b, 'img, 'e) pil \<Rightarrow> path \<Rightarrow> bool" where
  \<comment> \<open>The same for one output path: its format is read back at the size written.\<close>
  "written_reopens L p =
     (\<forall>img w w'. save L img p w = (Inr (), w') \<longrightarrow>
        (\<exists>img' w''. Image_open L p w' = (Inr img', w'') \<and> img_size L img' = img_size L img))"

definition open_by_content :: "('b, 'img, 'e) pil \<Rightarrow> bool" where
  \<comment> \<open>Whether a file opens, and the size of the image it opens as, depend on its bytes only.\<close>
  "open_by_content L =
     (\<forall>p q w v. files w (realpath L p) = files v (realpath L q) \<longrightarrow>
        map_sum (\<lambda>e. ()) (img_size L) (fst (Image_open L p w)) =
        map_sum (\<lambda>e. ()) (img_size L) (fst (Image_open L q v)))"

definition undecodable :: "('b, 'img, 'e) pil \<Rightarrow> path \<Rightarrow> 'b world \<Rightarrow> bool" where
  \<comment> \<open>No decodable image at \<open>p\<close>: \<open>Image.open\<close> raises, or it identifies the file and
      then no \<open>resize\<close> of it, to any size with any filter, gets at the pixel data.\<close>
  "undecodable L p w =
     (case Image_open L p w of
        (Inl e, w1) \<Rightarrow> True
      | (Inr img, w1) \<Rightarrow> (\<forall>sz f. \<exists>e w2. resize L img sz f w1 = (Inl e, w2)))"

definition open_handles :: "('b, 'img, 'e) pil \<Rightarrow> bool" where
  \<comment> \<open>\<open>Image.open\<close> leaves the handles as they were when it raises, and one more
      handle, on its own file, when it returns an image (which then holds that file).\<close>
  "open_handles L =
     ((\<forall>p w e w1 k. Image_open L p w = (Inl e, w1) \<longrightarrow>
         count_list (handles w1) k = count_list (handles w) k) \<and>
      (\<forall>p w img w1 k. Image_open L p w = (Inr img, w1) \<longrightarrow>
         img_fp L img = Some (realpath L p) \<and>
         count_list (handles w1) k =
           count_list (handles w) k + (if k = realpath L p then 1 else 0)))"

definition resize_handles :: "('b, 'img, 'e) pil \<Rightarrow> bool" where
  \<comment> \<open>\<open>resize\<close> opens nothing; the one handle it may close is the image's own.\<close>
  "resize_handles L =
     (\<forall>img sz f w k.
        count_list (handles (snd (resize L img sz f w))) k = count_list (handles w) k \<or>
        (img_fp L img = Some k \<and>
         count_list (handles (snd (resize L img sz f w))) k + 1 = count_list (handles w) k))"

definition save_handles :: "('b, 'img, 'e) pil \<Rightarrow> bool" where
  \<comment> \<open>\<open>save\<close> closes the file object it opened before it returns or raises.\<close>
  "save_handles L =
     (\<forall>img p w k. count_list (handles (snd (save L img p w))) k = count_list (handles w) k)"

subsection \<open>A small library instance, for concrete runs\<close>

text \<open>
  A filesystem of directories and image files, and the three calls as the library's
  handbook and source describe them, for four of its formats (JPEG, PNG, BMP, GIF) and
  three of its modes (\<open>RGB\<close>, \<open>RGBA\<close>, \<open>P\<close>); the library registers more of both, and
  this instance says nothing about them. Pixel values are left out: a file is described
  by the size, the mode and the number of frames it decodes to.

  Paths are resolved as the platform does for a filesystem without links: empty and
  \<open>.\<close> components drop out, \<open>..\<close> steps back, and what remains is the file's name.
\<close>

fun split_path :: "string \<Rightarrow> string list" where
  "split_path [] = [[]]"
| "split_path (c # cs) =
     (if c = CHR ''/'' then [] # split_path cs
      else (case split_path cs of [] \<Rightarrow> [[c]] | x # xs \<Rightarrow> (c # x) # xs))"

fun walk :: "bool \<Rightarrow> string list \<Rightarrow> string list \<Rightarrow> string list" where
  "walk a st [] = rev st"
| "walk a st (c # cs) =
     (if c = [] \<or> c = ''.'' then walk a st cs
      else if c = ''..'' then
        (case st of
           [] \<Rightarrow> if a then walk a [] cs else walk a [''..''] cs
         | s # st' \<Rightarrow> if s = ''..'' then walk a (''..'' # st) cs else walk a st' cs)
      else walk a (c # st) cs)"

fun join :: "string list \<Rightarrow> string" where
  "join [] = []"
| "join [x] = x"
| "join (x # y # ys) = x @ CHR ''/'' # join (y # ys)"

definition is_abs :: "path \<Rightarrow> bool" where
  "is_abs p = (case p of [] \<Rightarrow> False | c # cs \<Rightarrow> c = CHR ''/'')"

definition components :: "path \<Rightarrow> string list" where
  "components p = walk (is_abs p) [] (split_path p)"

definition of_components :: "bool \<Rightarrow> string list \<Rightarrow> path" where
  "of_components a cs =
     (if a then CHR ''/'' # join cs else if cs = [] then ''.'' else join cs)"

definition normpath :: "path \<Rightarrow> path" where
  "normpath p = of_components (is_abs p) (components p)"

definition parent :: "path \<Rightarrow> path" where
  "parent p = of_components (is_abs p) (butlast (components p))"

definition basename :: "path \<Rightarrow> string" where
  "basename p = (case components p of [] \<Rightarrow> [] | c # cs \<Rightarrow> last (c # cs))"

definition lower :: "char \<Rightarrow> char" where
  "lower c =
     (case map_of (zip ''ABCDEFGHIJKLMNOPQRSTUVWXYZ'' ''abcdefghijklmnopqrstuvwxyz'') c of
        None \<Rightarrow> c
      | Some d \<Rightarrow> d)"

definition extension :: "path \<Rightarrow> string" where
  \<comment> \<open>\<open>os.path.splitext(p)[1].lower()\<close>, without the dot: a leading dot starts no extension.\<close>
  "extension p =
     (let b = basename p in
      if CHR ''.'' \<in> set (drop 1 b)
      then map lower (rev (takeWhile (\<lambda>c. c \<noteq> CHR ''.'') (rev b)))
      else [])"

datatype exn =
  FileNotFoundError | IsADirectoryError | UnidentifiedImageError | ValueError | OSError
  | OverflowError

datatype colour_mode = RGB | RGBA | P

text \<open>
  What a file holds: a directory; a complete image in a format whose file the library
  closes once the pixels are loaded (JPEG, PNG, BMP); a complete GIF, whose file the
  library keeps open; an image file cut short after its header; bytes that are no image;
  nothing.
\<close>

datatype filedata =
  Dir
  | Img "int \<times> int" colour_mode nat
  | Gif "int \<times> int" colour_mode nat
  | Cut "int \<times> int" colour_mode nat
  | Junk
  | Empty

record image =
  im_size :: "int \<times> int"
  im_mode :: colour_mode
  n_frames :: nat
  fp :: "path option"
  keeps_file :: bool
  intact :: bool
  resampled :: "resample option"

datatype format = JPEG | PNG | BMP | GIF

definition format_of :: "string \<Rightarrow> format option" where
  "format_of ext =
     map_of [(''jpg'', JPEG), (''jpeg'', JPEG), (''jpe'', JPEG), (''jfif'', JPEG),
             (''png'', PNG), (''apng'', PNG), (''bmp'', BMP), (''gif'', GIF)] ext"

definition writes_mode :: "format \<Rightarrow> colour_mode \<Rightarrow> bool" where
  \<comment> \<open>JPEG has neither an alpha channel nor a palette.\<close>
  "writes_mode fmt m = (case fmt of JPEG \<Rightarrow> m = RGB | PNG \<Rightarrow> True | BMP \<Rightarrow> True | GIF \<Rightarrow> True)"

definition stored :: "format \<Rightarrow> image \<Rightarrow> filedata" where
  \<comment> \<open>\<open>save\<close> writes one frame; a GIF is written with a palette.\<close>
  "stored fmt im =
     (case fmt of
        GIF \<Rightarrow> Gif (im_size im) P 1
      | JPEG \<Rightarrow> Img (im_size im) (im_mode im) 1
      | PNG \<Rightarrow> Img (im_size im) (im_mode im) 1
      | BMP \<Rightarrow> Img (im_size im) (im_mode im) 1)"

definition dir_exists :: "filedata world \<Rightarrow> path \<Rightarrow> bool" where
  \<comment> \<open>The working directory, the root and the directories above the working directory
      are there; any other directory is there when the filesystem lists it.\<close>
  "dir_exists w d = (list_all (\<lambda>c. c = ''..'') (components d) \<or> files w (normpath d) = Some Dir)"

definition opened :: "path \<Rightarrow> int \<times> int \<Rightarrow> colour_mode \<Rightarrow> nat \<Rightarrow> bool \<Rightarrow> bool \<Rightarrow> image" where
  "opened k sz m n keep ok =
     \<lparr>im_size = sz, im_mode = m, n_frames = n, fp = Some k, keeps_file = keep, intact = ok,
      resampled = None\<rparr>"

definition pillow_open :: "path \<Rightarrow> filedata world \<Rightarrow> (exn + image) \<times> filedata world" where
  \<comment> \<open>The file is opened for reading and identified by its header; it stays open when
      an image is returned, and is closed again when none is.\<close>
  "pillow_open p w =
     (let k = normpath p in
      case files w k of
        None \<Rightarrow> (Inl FileNotFoundError, w)
      | Some Dir \<Rightarrow> (Inl IsADirectoryError, w)
      | Some (Img sz m n) \<Rightarrow> (Inr (opened k sz m n False True), w\<lparr>handles := k # handles w\<rparr>)
      | Some (Gif sz m n) \<Rightarrow> (Inr (opened k sz m n True True), w\<lparr>handles := k # handles w\<rparr>)
      | Some (Cut sz m n) \<Rightarrow> (Inr (opened k sz m n False False), w\<lparr>handles := k # handles w\<rparr>)
      | Some Junk \<Rightarrow> (Inl UnidentifiedImageError, w)
      | Some Empty \<Rightarrow> (Inl UnidentifiedImageError, w))"

definition pillow_load :: "image \<Rightarrow> filedata world \<Rightarrow> exn option \<times> filedata world" where
  \<comment> \<open>\<open>Image.load\<close>: reading the pixels of a file cut short raises and leaves the file
      open; after a complete read the file is closed unless the format keeps it.\<close>
  "pillow_load im w =
     (case fp im of
        None \<Rightarrow> (None, w)
      | Some k \<Rightarrow>
          if \<not> intact im then (Some OSError, w)
          else if keeps_file im then (None, w)
          else (None, w\<lparr>handles := remove1 k (handles w)\<rparr>))"

definition c_int :: "int \<Rightarrow> bool" where
  "c_int n = (- 2147483648 \<le> n \<and> n \<le> 2147483647)"

definition pillow_resize ::
  "image \<Rightarrow> int \<times> int \<Rightarrow> resample \<Rightarrow> filedata world \<Rightarrow> (exn + image) \<times> filedata world" where
  \<comment> \<open>The pixels are loaded first. The size goes to C as two \<open>int\<close>s, and a side below 1
      is refused there. An image decoded from a file has positive sides, so for the
      script it makes no difference that the shortcut for an unchanged size is taken
      here after these two tests.\<close>
  "pillow_resize im sz f w =
     (case pillow_load im w of
        (Some e, w') \<Rightarrow> (Inl e, w')
      | (None, w') \<Rightarrow>
          if \<not> c_int (fst sz) \<or> \<not> c_int (snd sz) then (Inl OverflowError, w')
          else if fst sz < 1 \<or> snd sz < 1 then (Inl ValueError, w')
          else if im_size im = sz then
            (Inr (im\<lparr>n_frames := 1, fp := None, keeps_file := False\<rparr>), w')
          else
            (Inr \<lparr>im_size = sz, im_mode = im_mode im, n_frames = 1, fp = None,
                  keeps_file = False, intact = True,
                  resampled = Some (if im_mode im = P then NEAREST else f)\<rparr>, w'))"

definition pillow_save :: "image \<Rightarrow> path \<Rightarrow> filedata world \<Rightarrow> (exn + unit) \<times> filedata world" where
  \<comment> \<open>The format comes from the extension, before any file is touched. The path is
      then opened for writing, which empties a file already there, and the encoder runs;
      when it refuses the image the file object is closed, and a file that this call
      created is removed again.\<close>
  "pillow_save im p w =
     (let k = normpath p in
      case format_of (extension p) of
        None \<Rightarrow> (Inl ValueError, w)
      | Some fmt \<Rightarrow>
          if \<not> dir_exists w (parent p) then (Inl FileNotFoundError, w)
          else if files w k = Some Dir then (Inl IsADirectoryError, w)
          else if \<not> writes_mode fmt (im_mode im) then
            (Inl OSError, if files w k = None then w else w\<lparr>files := (files w)(k \<mapsto> Empty)\<rparr>)
          else (Inr (), w\<lparr>files := (files w)(k \<mapsto> stored fmt im)\<rparr>))"

definition pillow :: "(filedata, image, exn) pil" where
  "pillow = \<lparr>Image_open = pillow_open, resize = pillow_resize, save = pillow_save,
             img_size = im_size, realpath = normpath, img_fp = fp,
             img_indexed = (\<lambda>im. im_mode im = P), img_resampled = resampled\<rparr>"

definition w0 :: "filedata world" where
  "w0 = \<lparr>files = [''pics'' \<mapsto> Dir,
                  ''pics/in.jpeg'' \<mapsto> Img (1200, 1650) RGB 1,
                  ''pics/logo.png'' \<mapsto> Img (64, 64) RGBA 1,
                  ''pics/anim.gif'' \<mapsto> Gif (32, 32) P 3,
                  ''pics/cut.jpeg'' \<mapsto> Cut (640, 480) RGB 1,
                  ''pics/old.jpeg'' \<mapsto> Img (10, 10) RGB 1],
          handles = []\<rparr>"

text \<open>
  The script's own directory layout: it is run from \<open>script/\<close>, beside \<open>assets/resized/\<close>,
  on a portrait of 1200 by 1650 pixels.
\<close>

definition site :: "filedata world" where
  "site = \<lparr>files = [''../assets'' \<mapsto> Dir,
                    ''../assets/resized'' \<mapsto> Dir,
                    ''../assets/resized/prof_pic_yh.jpeg'' \<mapsto> Img (1200, 1650) RGB 1],
            handles = []\<rparr>"

section \<open>Properties\<close>

subsection \<open>The instance meets the contracts\<close>

lemmas pillow_run =
  ResizeImage_def pillow_def pillow_open_def pillow_resize_def pillow_load_def pillow_save_def
  w0_def format_of_def extension_def basename_def parent_def normpath_def components_def
  of_components_def is_abs_def dir_exists_def opened_def c_int_def writes_mode_def stored_def
  lower_def Let_def

lemma pillow_open_reads_only: "open_reads_only pillow"
  by (auto simp: open_reads_only_def pillow_def pillow_open_def Let_def
      split: option.splits filedata.splits)

lemma pillow_resize_reads_only: "resize_reads_only pillow"
  by (auto simp: resize_reads_only_def pillow_def pillow_resize_def pillow_load_def
      split: option.splits prod.splits if_splits)

lemma pillow_save_writes_own_file: "save_writes_own_file pillow"
  by (auto simp: save_writes_own_file_def pillow_def pillow_save_def Let_def split: option.splits)

lemma pillow_resize_exact: "resize_exact pillow"
  by (auto simp: resize_exact_def pillow_def pillow_resize_def
      split: option.splits prod.splits if_splits)


lemma pillow_resize_rejects_nonpositive: "resize_rejects_nonpositive pillow"
  by (auto simp: resize_rejects_nonpositive_def pillow_def pillow_resize_def
      split: option.splits prod.splits)

lemma pillow_save_then_open: "save_then_open pillow"
  by (auto simp: save_then_open_def pillow_def pillow_save_def pillow_open_def stored_def
      opened_def Let_def split: option.splits if_splits format.splits)

lemma save_then_open_at: "save_then_open L \<Longrightarrow> written_reopens L p"
  unfolding save_then_open_def written_reopens_def by blast

lemma pillow_open_by_content: "open_by_content pillow"
  by (auto simp: open_by_content_def pillow_def pillow_open_def opened_def Let_def
      split: option.splits filedata.splits)

lemma count_list_remove1:
  "count_list (remove1 k xs) j =
     (if j = k \<and> k \<in> set xs then count_list xs j - 1 else count_list xs j)"
  by (induction xs) auto

lemma count_list_pos: "k \<in> set xs \<Longrightarrow> 0 < count_list xs k"
  by (induction xs) auto

lemma pillow_open_handles: "open_handles pillow"
  by (auto simp: open_handles_def pillow_def pillow_open_def opened_def Let_def
      split: option.splits filedata.splits)

lemma pillow_resize_handles: "resize_handles pillow"
  unfolding resize_handles_def
proof (intro allI)
  fix im :: image and sz f and w :: "filedata world" and k
  let ?w' = "snd (resize pillow im sz f w)"
  have h: "handles ?w' = handles w \<or>
      (\<exists>j. fp im = Some j \<and> handles ?w' = remove1 j (handles w))"
    by (auto simp: pillow_def pillow_resize_def pillow_load_def
        split: option.splits prod.splits if_splits)
  then show "count_list (handles ?w') k = count_list (handles w) k \<or>
      (img_fp pillow im = Some k \<and> count_list (handles ?w') k + 1 = count_list (handles w) k)"
  proof
    assume "handles ?w' = handles w"
    then show ?thesis by simp
  next
    assume "\<exists>j. fp im = Some j \<and> handles ?w' = remove1 j (handles w)"
    then obtain j where j: "fp im = Some j" "handles ?w' = remove1 j (handles w)" by blast
    show ?thesis
    proof (cases "k = j \<and> j \<in> set (handles w)")
      case True
      then have "0 < count_list (handles w) k" using count_list_pos by metis
      then show ?thesis using True j by (simp add: count_list_remove1 pillow_def)
    next
      case False
      then show ?thesis using j by (auto simp: count_list_remove1)
    qed
  qed
qed

lemma pillow_save_handles: "save_handles pillow"
  by (auto simp: save_handles_def pillow_def pillow_save_def Let_def split: option.splits)

subsection \<open>The shape of a call\<close>

text \<open>The three ways a call can end.\<close>

lemma ResizeImage_cases:
  assumes "ResizeImage L filein fileout width height w = (r, w')"
  obtains
    (open_raises) e where "Image_open L filein w = (Inl e, w')" "r = Inl e"
  | (resize_raises) img w1 e where "Image_open L filein w = (Inr img, w1)"
      "resize L img (width, height) ANTIALIAS w1 = (Inl e, w')" "r = Inl e"
  | (saved) img w1 out w2 where "Image_open L filein w = (Inr img, w1)"
      "resize L img (width, height) ANTIALIAS w1 = (Inr out, w2)"
      "save L out fileout w2 = (r, w')"
  using assms unfolding ResizeImage_def
  by (auto split: prod.splits sum.splits)

lemma files_after_open: "open_reads_only L \<Longrightarrow> Image_open L p w = (x, w1) \<Longrightarrow> files w1 = files w"
  unfolding open_reads_only_def by (metis snd_conv)

lemma files_after_resize:
  "resize_reads_only L \<Longrightarrow> resize L img sz f w = (x, w1) \<Longrightarrow> files w1 = files w"
  unfolding resize_reads_only_def by (metis snd_conv)

lemma files_after_save:
  "save_writes_own_file L \<Longrightarrow> save L img p w = (x, w1) \<Longrightarrow> k \<noteq> realpath L p \<Longrightarrow>
     files w1 k = files w k"
  unfolding save_writes_own_file_def by (metis snd_conv)

lemma handles_after_open_raises:
  "open_handles L \<Longrightarrow> Image_open L p w = (Inl e, w1) \<Longrightarrow>
     count_list (handles w1) k = count_list (handles w) k"
  unfolding open_handles_def by blast

lemma handles_after_open_returns:
  "open_handles L \<Longrightarrow> Image_open L p w = (Inr img, w1) \<Longrightarrow>
     img_fp L img = Some (realpath L p) \<and>
     count_list (handles w1) k = count_list (handles w) k + (if k = realpath L p then 1 else 0)"
  unfolding open_handles_def by blast

lemma handles_after_resize:
  "resize_handles L \<Longrightarrow> resize L img sz f w = (x, w1) \<Longrightarrow>
     count_list (handles w1) k = count_list (handles w) k \<or>
     (img_fp L img = Some k \<and> count_list (handles w1) k + 1 = count_list (handles w) k)"
  unfolding resize_handles_def by (metis snd_conv)

lemma handles_after_save:
  "save_handles L \<Longrightarrow> save L img p w = (x, w1) \<Longrightarrow>
     count_list (handles w1) k = count_list (handles w) k"
  unfolding save_handles_def by (metis snd_conv)

subsection \<open>The entry point\<close>

text \<open>
  C8. Run directly (\<open>__name__ == "__main__"\<close>), the module makes one call of
  \<open>ResizeImage\<close>, with the literal paths and the literal size 480 by 659, and does
  nothing else: its whole effect is the effect of that call.
\<close>

theorem module_body_main:
  "module_body ''__main__'' L w =
     ResizeImage L ''../assets//resized//prof_pic_yh.jpeg''
       ''../assets//resized//prof_pic-480x659.jpeg'' 480 659 w"
  by (simp add: module_body_def)

text \<open>Imported under any other name, the module defines the function and runs nothing.\<close>

lemma module_body_imported:
  "name \<noteq> ''__main__'' \<Longrightarrow> module_body name L w = (Inr (), w)"
  by (simp add: module_body_def)

text \<open>
  Run from \<open>script/\<close> on the portrait, the literal paths, doubled slashes and all, name
  the files under \<open>../assets/resized\<close>, and the run leaves the 480 by 659 copy there.
\<close>

lemma module_body_on_site:
  "module_body ''__main__'' pillow site =
     (Inr (), site\<lparr>files := (files site)(''../assets/resized/prof_pic-480x659.jpeg'' \<mapsto>
                                  Img (480, 659) RGB 1)\<rparr>)"
  by (simp add: pillow_run module_body_def site_def)

subsection \<open>Failures before the save\<close>

text \<open>
  C3, as the code has it. When there is no decodable image at \<open>filein\<close> (no file, an
  unreadable one, bytes that are no image, or an image file cut short, which the library
  identifies and then cannot load), the call fails and no file has been written: the
  filesystem is as it was. The error is the library's exception, from \<open>Image.open\<close>
  or, for a file that was identified, from \<open>resize\<close>; the script has no exception type
  of its own.
\<close>

theorem undecodable_input_fails:
  assumes "open_reads_only L" and "resize_reads_only L" and "undecodable L filein w"
  shows "\<exists>e w'. ResizeImage L filein fileout width height w = (Inl e, w') \<and>
           files w' = files w \<and>
           (case Image_open L filein w of
              (Inl e0, w1) \<Rightarrow> e = e0
            | (Inr img, w1) \<Rightarrow> fst (resize L img (width, height) ANTIALIAS w1) = Inl e)"
proof (cases "Image_open L filein w")
  case (Pair x w1)
  have f1: "files w1 = files w" using files_after_open [OF assms(1) Pair] .
  show ?thesis
  proof (cases x)
    case (Inl e0)
    then show ?thesis using Pair f1 by (simp add: ResizeImage_def)
  next
    case (Inr img)
    from assms(3) Pair Inr
    have "\<forall>sz f. \<exists>e w2. resize L img sz f w1 = (Inl e, w2)"
      unfolding undecodable_def by simp
    then obtain e w2
      where r: "resize L img (width, height) ANTIALIAS w1 = (Inl e, w2)"
      by blast
    have "files w2 = files w1" using files_after_resize [OF assms(2) r] .
    then show ?thesis using Pair Inr r f1 by (simp add: ResizeImage_def)
  qed
qed

theorem undecodable_input_fails_witness:
  "open_reads_only pillow \<and> resize_reads_only pillow \<and>
   undecodable pillow ''pics/cut.jpeg'' w0 \<and>
   files w0 ''pics/cut.jpeg'' = Some (Cut (640, 480) RGB 1) \<and>
   ResizeImage pillow ''pics/cut.jpeg'' ''pics/out.jpeg'' 480 659 w0 =
     (Inl OSError, w0\<lparr>handles := [''pics/cut.jpeg'']\<rparr>) \<and>
   files w0 ''pics/out.jpeg'' = None"
proof -
  have u: "undecodable pillow ''pics/cut.jpeg'' w0"
    by (simp add: undecodable_def pillow_run)
  have r: "ResizeImage pillow ''pics/cut.jpeg'' ''pics/out.jpeg'' 480 659 w0 =
     (Inl OSError, w0\<lparr>handles := [''pics/cut.jpeg'']\<rparr>)"
    by (simp add: pillow_run)
  show ?thesis
    using undecodable_input_fails [OF pillow_open_reads_only pillow_resize_reads_only u,
        of "''pics/out.jpeg''" 480 659]
      pillow_open_reads_only pillow_resize_reads_only u r
    by (simp add: w0_def)
qed

text \<open>
  The claim's typed decode error does not exist: a missing input raises the same
  \<open>FileNotFoundError\<close> as a missing output directory, and an input cut short the same
  \<open>OSError\<close> as an image the output format cannot hold, so the exception does not
  tell a decode failure from an encode failure.
\<close>

theorem decode_error_not_typed_counterexample:
  "fst (ResizeImage pillow ''pics/missing.jpeg'' ''pics/out.jpeg'' 480 659 w0) = Inl FileNotFoundError \<and>
   fst (ResizeImage pillow ''pics/in.jpeg'' ''nodir/out.jpeg'' 480 659 w0) = Inl FileNotFoundError \<and>
   fst (ResizeImage pillow ''pics/cut.jpeg'' ''pics/out.jpeg'' 480 659 w0) = Inl OSError \<and>
   fst (ResizeImage pillow ''pics/logo.png'' ''pics/old.jpeg'' 480 659 w0) = Inl OSError"
  by (simp add: pillow_run)

text \<open>
  C2, as the code has it. The script checks no size: \<open>Image.open\<close> runs first, and a
  size with a side of 0 or less is refused by the library's \<open>resize\<close>. So a call with
  such a size always fails and writes no file, with the exception of \<open>resize\<close> when the
  input opens, and with the exception of \<open>Image.open\<close> when it does not.
\<close>

theorem nonpositive_size_fails:
  assumes "open_reads_only L" and "resize_reads_only L" and "resize_rejects_nonpositive L"
    and "width \<le> 0 \<or> height \<le> 0"
  shows "\<exists>e w'. ResizeImage L filein fileout width height w = (Inl e, w') \<and>
           files w' = files w \<and>
           (case Image_open L filein w of
              (Inl e0, w1) \<Rightarrow> e = e0
            | (Inr img, w1) \<Rightarrow> fst (resize L img (width, height) ANTIALIAS w1) = Inl e)"
proof (cases "Image_open L filein w")
  case (Pair x w1)
  have f1: "files w1 = files w" using files_after_open [OF assms(1) Pair] .
  show ?thesis
  proof (cases x)
    case (Inl e0)
    then show ?thesis using Pair f1 by (simp add: ResizeImage_def)
  next
    case (Inr img)
    from assms(3,4) obtain e w2 where r: "resize L img (width, height) ANTIALIAS w1 = (Inl e, w2)"
      unfolding resize_rejects_nonpositive_def
      by (metis int_one_le_iff_zero_less not_le)
    have "files w2 = files w1" using files_after_resize [OF assms(2) r] .
    then show ?thesis using Pair Inr r f1 by (simp add: ResizeImage_def)
  qed
qed

theorem nonpositive_size_fails_witness:
  "open_reads_only pillow \<and> resize_reads_only pillow \<and> resize_rejects_nonpositive pillow \<and>
   ((0::int) \<le> 0 \<or> (659::int) \<le> 0) \<and>
   ResizeImage pillow ''pics/in.jpeg'' ''pics/out.jpeg'' 0 659 w0 = (Inl ValueError, w0) \<and>
   files w0 ''pics/out.jpeg'' = None"
proof -
  have h: "(0::int) \<le> 0 \<or> (659::int) \<le> 0" by simp
  have "ResizeImage pillow ''pics/in.jpeg'' ''pics/out.jpeg'' 0 659 w0 = (Inl ValueError, w0)"
    by (simp add: pillow_run)
  then show ?thesis
    using nonpositive_size_fails [OF pillow_open_reads_only pillow_resize_reads_only
        pillow_resize_rejects_nonpositive h, of "''pics/in.jpeg''" "''pics/out.jpeg''" w0]
      pillow_open_reads_only pillow_resize_reads_only pillow_resize_rejects_nonpositive
    by (simp add: w0_def)
qed

text \<open>
  The claim as the specification words it (every call with a non-positive side fails
  with the dimension error) does not hold: with no file at \<open>filein\<close> the same size
  gives the error of \<open>Image.open\<close>, not the one \<open>resize\<close> gives on a file that opens.
\<close>

theorem nonpositive_size_other_error_counterexample:
  "ResizeImage pillow ''pics/missing.jpeg'' ''pics/out.jpeg'' 0 659 w0 = (Inl FileNotFoundError, w0) \<and>
   ResizeImage pillow ''pics/in.jpeg'' ''pics/out.jpeg'' 0 659 w0 = (Inl ValueError, w0)"
  by (simp add: pillow_run)

subsection \<open>The size of the output\<close>

text \<open>
  C1, as the code has it. A call that returns normally has left at \<open>fileout\<close> a file
  that opens as an image of exactly the size asked for, when the format of \<open>fileout\<close>
  is one the library reads back at the size it wrote (as it does a JPEG). That the call
  returns normally is a condition, not a consequence of a decodable input and a positive
  size.
\<close>

theorem output_has_requested_size:
  assumes "resize_exact L" and "written_reopens L fileout"
    and "ResizeImage L filein fileout width height w = (Inr (), w')"
  shows "\<exists>img' w''. Image_open L fileout w' = (Inr img', w'') \<and>
           img_size L img' = (width, height)"
proof -
  from assms(3) obtain img w1 out w2 where
    r: "resize L img (width, height) ANTIALIAS w1 = (Inr out, w2)" and
    s: "save L out fileout w2 = (Inr (), w')"
    by (cases rule: ResizeImage_cases) auto
  from assms(1) r have sz: "img_size L out = (width, height)"
    unfolding resize_exact_def by blast
  from assms(2) s obtain img' w'' where
    "Image_open L fileout w' = (Inr img', w'')" "img_size L img' = img_size L out"
    unfolding written_reopens_def by blast
  then show ?thesis using sz by auto
qed

theorem output_has_requested_size_witness:
  "resize_exact pillow \<and> written_reopens pillow ''pics/out.jpeg'' \<and>
   files w0 ''pics/in.jpeg'' = Some (Img (1200, 1650) RGB 1) \<and>
   fst (ResizeImage pillow ''pics/in.jpeg'' ''pics/out.jpeg'' 480 659 w0) = Inr () \<and>
   files (snd (ResizeImage pillow ''pics/in.jpeg'' ''pics/out.jpeg'' 480 659 w0)) ''pics/out.jpeg''
     = Some (Img (480, 659) RGB 1) \<and>
   (\<exists>img' w''.
      Image_open pillow ''pics/out.jpeg''
        (snd (ResizeImage pillow ''pics/in.jpeg'' ''pics/out.jpeg'' 480 659 w0)) = (Inr img', w'') \<and>
      img_size pillow img' = (480, 659))"
proof -
  have wr: "written_reopens pillow ''pics/out.jpeg''"
    using pillow_save_then_open by (rule save_then_open_at)
  have f: "fst (ResizeImage pillow ''pics/in.jpeg'' ''pics/out.jpeg'' 480 659 w0) = Inr ()"
    by (simp add: pillow_run)
  then have r: "ResizeImage pillow ''pics/in.jpeg'' ''pics/out.jpeg'' 480 659 w0 =
      (Inr (), snd (ResizeImage pillow ''pics/in.jpeg'' ''pics/out.jpeg'' 480 659 w0))"
    by (simp add: prod_eq_iff)
  have i: "files w0 ''pics/in.jpeg'' = Some (Img (1200, 1650) RGB 1)"
    by (simp add: w0_def)
  have o: "files (snd (ResizeImage pillow ''pics/in.jpeg'' ''pics/out.jpeg'' 480 659 w0)) ''pics/out.jpeg''
     = Some (Img (480, 659) RGB 1)"
    by (simp add: pillow_run)
  show ?thesis
    using output_has_requested_size [OF pillow_resize_exact wr r] pillow_resize_exact wr f i o
    by simp
qed

text \<open>
  A decodable input, a positive size and a writable JPEG output do not make the call
  succeed: the sides are handed to C as \<open>int\<close>s, and a width of \<open>2^31\<close> is refused with
  \<open>OverflowError\<close> before anything is written.
\<close>

theorem oversized_side_counterexample:
  "files w0 ''pics/in.jpeg'' = Some (Img (1200, 1650) RGB 1) \<and>
   (0 :: int) < 2147483648 \<and> (0 :: int) < 659 \<and>
   ResizeImage pillow ''pics/in.jpeg'' ''pics/out.jpeg'' 2147483648 659 w0 = (Inl OverflowError, w0) \<and>
   files w0 ''pics/out.jpeg'' = None"
  by (simp add: pillow_run)

subsection \<open>What a call writes\<close>




text \<open>
  C7, as the code has it. When \<open>fileout\<close> names another file than \<open>filein\<close> does, the
  file of \<open>filein\<close> is the same after the call as before, however the call ends (also
  when \<open>save\<close> raises because the directory of \<open>fileout\<close> does not exist). Different
  path strings are not enough: what counts is the file each of them names.
\<close>

theorem input_unchanged_when_files_differ:
  assumes "open_reads_only L" and "resize_reads_only L" and "save_writes_own_file L"
    and "realpath L fileout \<noteq> realpath L filein"
  shows "files (snd (ResizeImage L filein fileout width height w)) (realpath L filein)
           = files w (realpath L filein)"
proof (cases "ResizeImage L filein fileout width height w")
  case (Pair r w')
  from Pair have "files w' (realpath L filein) = files w (realpath L filein)"
  proof (cases rule: ResizeImage_cases)
    case (open_raises e)
    then show ?thesis using files_after_open [OF assms(1)] by metis
  next
    case (resize_raises img w1 e)
    then show ?thesis
      using files_after_open [OF assms(1)] files_after_resize [OF assms(2)] by metis
  next
    case (saved img w1 out w2)
    have f: "files w2 = files w"
      using saved files_after_open [OF assms(1)] files_after_resize [OF assms(2)] by metis
    have "files w' (realpath L filein) = files w2 (realpath L filein)"
      using files_after_save [OF assms(3) saved(3)] assms(4) by metis
    then show ?thesis using f by simp
  qed
  then show ?thesis using Pair by simp
qed

theorem input_unchanged_when_files_differ_witness:
  "open_reads_only pillow \<and> resize_reads_only pillow \<and> save_writes_own_file pillow \<and>
   realpath pillow ''nodir/out.jpeg'' \<noteq> realpath pillow ''pics/in.jpeg'' \<and>
   realpath pillow ''pics/in.jpeg'' = ''pics/in.jpeg'' \<and>
   fst (ResizeImage pillow ''pics/in.jpeg'' ''nodir/out.jpeg'' 480 659 w0) = Inl FileNotFoundError \<and>
   files (snd (ResizeImage pillow ''pics/in.jpeg'' ''nodir/out.jpeg'' 480 659 w0)) ''pics/in.jpeg''
     = Some (Img (1200, 1650) RGB 1)"
proof -
  have d: "realpath pillow ''nodir/out.jpeg'' \<noteq> realpath pillow ''pics/in.jpeg''"
    by (simp add: pillow_run)
  have k: "realpath pillow ''pics/in.jpeg'' = ''pics/in.jpeg''"
    by (simp add: pillow_run)
  have e: "fst (ResizeImage pillow ''pics/in.jpeg'' ''nodir/out.jpeg'' 480 659 w0) = Inl FileNotFoundError"
    by (simp add: pillow_run)
  have f: "files w0 ''pics/in.jpeg'' = Some (Img (1200, 1650) RGB 1)"
    by (simp add: w0_def)
  show ?thesis
    using input_unchanged_when_files_differ [OF pillow_open_reads_only pillow_resize_reads_only
        pillow_save_writes_own_file d, of 480 659 w0] d k e f
      pillow_open_reads_only pillow_resize_reads_only pillow_save_writes_own_file
    by simp
qed

text \<open>
  The script does not compare the two paths: called with \<open>fileout = filein\<close>, or with
  another spelling of the same file, it writes the resized image over its input.
\<close>

theorem alias_overwrites_input_counterexample:
  "files w0 ''pics/in.jpeg'' = Some (Img (1200, 1650) RGB 1) \<and>
   fst (ResizeImage pillow ''pics/in.jpeg'' ''pics/in.jpeg'' 480 659 w0) = Inr () \<and>
   files (snd (ResizeImage pillow ''pics/in.jpeg'' ''pics/in.jpeg'' 480 659 w0)) ''pics/in.jpeg''
     = Some (Img (480, 659) RGB 1) \<and>
   ''./pics//in.jpeg'' \<noteq> ''pics/in.jpeg'' \<and>
   fst (ResizeImage pillow ''pics/in.jpeg'' ''./pics//in.jpeg'' 480 659 w0) = Inr () \<and>
   files (snd (ResizeImage pillow ''pics/in.jpeg'' ''./pics//in.jpeg'' 480 659 w0)) ''pics/in.jpeg''
     = Some (Img (480, 659) RGB 1)"
  by (simp add: pillow_run)

text \<open>
  C10, as the code has it. The script puts no condition on the two paths. When
  \<open>fileout\<close> names the file of \<open>filein\<close> and the input is not already of the size asked
  for, a successful call leaves in that file an image of the new size, and what the file
  holds is no longer what it held: the original is gone.
\<close>

theorem same_file_replaces_input:
  assumes "resize_exact L" and "written_reopens L fileout" and "open_by_content L"
    and "realpath L fileout = realpath L filein"
    and "Image_open L filein w = (Inr img, w1)"
    and "img_size L img \<noteq> (width, height)"
    and "ResizeImage L filein fileout width height w = (Inr (), w')"
  shows "(\<exists>img' w''. Image_open L fileout w' = (Inr img', w'') \<and>
            img_size L img' = (width, height)) \<and>
         files w' (realpath L filein) \<noteq> files w (realpath L filein)"
proof -
  from assms(7) obtain img0 w10 out w2 where
    a: "resize L img0 (width, height) ANTIALIAS w10 = (Inr out, w2)"
       "save L out fileout w2 = (Inr (), w')"
    by (cases rule: ResizeImage_cases) auto
  have sz: "img_size L out = (width, height)"
    using assms(1) a(1) unfolding resize_exact_def by blast
  from assms(2) a(2) obtain img' w'' where
    b: "Image_open L fileout w' = (Inr img', w'')" "img_size L img' = img_size L out"
    unfolding written_reopens_def by blast
  have "files w' (realpath L filein) \<noteq> files w (realpath L filein)"
  proof
    assume "files w' (realpath L filein) = files w (realpath L filein)"
    then have "files w' (realpath L fileout) = files w (realpath L filein)"
      using assms(4) by simp
    then have "map_sum (\<lambda>e. ()) (img_size L) (fst (Image_open L fileout w')) =
               map_sum (\<lambda>e. ()) (img_size L) (fst (Image_open L filein w))"
      using assms(3) unfolding open_by_content_def by blast
    then have "img_size L img' = img_size L img" using b(1) assms(5) by simp
    then show False using b(2) sz assms(6) by simp
  qed
  then show ?thesis using b sz by auto
qed

theorem same_file_replaces_input_witness:
  "resize_exact pillow \<and> written_reopens pillow ''./pics//in.jpeg'' \<and> open_by_content pillow \<and>
   realpath pillow ''./pics//in.jpeg'' = realpath pillow ''pics/in.jpeg'' \<and>
   files w0 ''pics/in.jpeg'' = Some (Img (1200, 1650) RGB 1) \<and>
   (1200, 1650) \<noteq> (480 :: int, 659 :: int) \<and>
   fst (ResizeImage pillow ''pics/in.jpeg'' ''./pics//in.jpeg'' 480 659 w0) = Inr () \<and>
   files (snd (ResizeImage pillow ''pics/in.jpeg'' ''./pics//in.jpeg'' 480 659 w0)) ''pics/in.jpeg''
     \<noteq> files w0 ''pics/in.jpeg''"
proof -
  have wr: "written_reopens pillow ''./pics//in.jpeg''"
    using pillow_save_then_open by (rule save_then_open_at)
  have k: "realpath pillow ''./pics//in.jpeg'' = realpath pillow ''pics/in.jpeg''"
    by (simp add: pillow_run)
  have k': "realpath pillow ''pics/in.jpeg'' = ''pics/in.jpeg''"
    by (simp add: pillow_run)
  have o: "Image_open pillow ''pics/in.jpeg'' w0 =
     (Inr (opened ''pics/in.jpeg'' (1200, 1650) RGB 1 False True),
      w0\<lparr>handles := [''pics/in.jpeg'']\<rparr>)"
    by (simp add: pillow_def pillow_open_def w0_def normpath_def components_def
        of_components_def is_abs_def Let_def)
  have d: "img_size pillow (opened ''pics/in.jpeg'' (1200, 1650) RGB 1 False True) \<noteq> (480, 659)"
    by (simp add: pillow_def opened_def)
  have f: "fst (ResizeImage pillow ''pics/in.jpeg'' ''./pics//in.jpeg'' 480 659 w0) = Inr ()"
    by (simp add: pillow_run)
  then have r: "ResizeImage pillow ''pics/in.jpeg'' ''./pics//in.jpeg'' 480 659 w0 =
      (Inr (), snd (ResizeImage pillow ''pics/in.jpeg'' ''./pics//in.jpeg'' 480 659 w0))"
    by (simp add: prod_eq_iff)
  have c: "files w0 ''pics/in.jpeg'' = Some (Img (1200, 1650) RGB 1)"
    by (simp add: w0_def)
  show ?thesis
    using same_file_replaces_input [OF pillow_resize_exact wr pillow_open_by_content k o d r]
      pillow_resize_exact wr pillow_open_by_content k k' f c
    by simp
qed

text \<open>
  The original is not always lost: an image already of the size asked for is copied,
  not resampled, and written back to a lossless format the file holds the same image as
  before.
\<close>

theorem same_size_keeps_content_counterexample:
  "files w0 ''pics/logo.png'' = Some (Img (64, 64) RGBA 1) \<and>
   fst (ResizeImage pillow ''pics/logo.png'' ''pics/logo.png'' 64 64 w0) = Inr () \<and>
   files (snd (ResizeImage pillow ''pics/logo.png'' ''pics/logo.png'' 64 64 w0)) ''pics/logo.png''
     = Some (Img (64, 64) RGBA 1)"
  by (simp add: pillow_run)

subsection \<open>The resize step\<close>




subsection \<open>Files and handles touched\<close>

text \<open>
  C9, as the code has it. A call hands \<open>filein\<close> to \<open>Image.open\<close> and \<open>fileout\<close> to
  \<open>save\<close> and names no other path. The only file it can change is the file of
  \<open>fileout\<close>; the handles on every file other than the file of \<open>filein\<close> are exactly
  as before, none opened and none closed; and on the file of \<open>filein\<close> there is
  afterwards the same number of handles or one more, the one \<open>Image.open\<close> acquired.
  The script closes nothing itself (there is no \<open>with\<close> block and no \<open>close\<close>); whether
  that handle is released is left to the library.
\<close>

theorem touches_only_own_files:
  assumes "open_reads_only L" and "resize_reads_only L" and "save_writes_own_file L"
    and "open_handles L" and "resize_handles L" and "save_handles L"
    and "ResizeImage L filein fileout width height w = (r, w')"
  shows "(\<forall>k. k \<noteq> realpath L fileout \<longrightarrow> files w' k = files w k) \<and>
         (\<forall>k. k \<noteq> realpath L filein \<longrightarrow>
            count_list (handles w') k = count_list (handles w) k) \<and>
         count_list (handles w) (realpath L filein) \<le> count_list (handles w') (realpath L filein) \<and>
         count_list (handles w') (realpath L filein) \<le> count_list (handles w) (realpath L filein) + 1"
  using assms(7)
proof (cases rule: ResizeImage_cases)
  case (open_raises e)
  have "files w' = files w" using files_after_open [OF assms(1) open_raises(1)] .
  moreover have "\<forall>k. count_list (handles w') k = count_list (handles w) k"
    using handles_after_open_raises [OF assms(4) open_raises(1)] by simp
  ultimately show ?thesis by simp
next
  case (resize_raises img w1 e)
  have f: "files w' = files w"
    using files_after_open [OF assms(1) resize_raises(1)]
      files_after_resize [OF assms(2) resize_raises(2)] by simp
  have fp: "img_fp L img = Some (realpath L filein)"
    using handles_after_open_returns [OF assms(4) resize_raises(1)] by simp
  have o: "\<forall>k. count_list (handles w1) k =
      count_list (handles w) k + (if k = realpath L filein then 1 else 0)"
    using handles_after_open_returns [OF assms(4) resize_raises(1)] by simp
  have z: "\<forall>k. count_list (handles w') k = count_list (handles w1) k \<or>
      (img_fp L img = Some k \<and> count_list (handles w') k + 1 = count_list (handles w1) k)"
    using handles_after_resize [OF assms(5) resize_raises(2)] by simp
  have other: "\<forall>k. k \<noteq> realpath L filein \<longrightarrow>
      count_list (handles w') k = count_list (handles w) k"
  proof (intro allI impI)
    fix k
    assume ne: "k \<noteq> realpath L filein"
    have "count_list (handles w1) k = count_list (handles w) k"
      using o ne by simp
    moreover have "count_list (handles w') k = count_list (handles w1) k"
      using z [rule_format, of k] fp ne by auto
    ultimately show "count_list (handles w') k = count_list (handles w) k"
      by simp
  qed
  have own: "count_list (handles w) (realpath L filein) \<le> count_list (handles w') (realpath L filein) \<and>
      count_list (handles w') (realpath L filein) \<le> count_list (handles w) (realpath L filein) + 1"
    using o [rule_format, of "realpath L filein"] z [rule_format, of "realpath L filein"] by auto
  show ?thesis using f other own by simp
next
  case (saved img w1 out w2)
  have f: "files w2 = files w"
    using files_after_open [OF assms(1) saved(1)] files_after_resize [OF assms(2) saved(2)]
    by simp
  have g: "\<forall>k. k \<noteq> realpath L fileout \<longrightarrow> files w' k = files w k"
    using files_after_save [OF assms(3) saved(3)] f by simp
  have fp: "img_fp L img = Some (realpath L filein)"
    using handles_after_open_returns [OF assms(4) saved(1)] by simp
  have o: "\<forall>k. count_list (handles w1) k =
      count_list (handles w) k + (if k = realpath L filein then 1 else 0)"
    using handles_after_open_returns [OF assms(4) saved(1)] by simp
  have z: "\<forall>k. count_list (handles w2) k = count_list (handles w1) k \<or>
      (img_fp L img = Some k \<and> count_list (handles w2) k + 1 = count_list (handles w1) k)"
    using handles_after_resize [OF assms(5) saved(2)] by simp
  have s: "\<forall>k. count_list (handles w') k = count_list (handles w2) k"
    using handles_after_save [OF assms(6) saved(3)] by simp
  have other: "\<forall>k. k \<noteq> realpath L filein \<longrightarrow>
      count_list (handles w') k = count_list (handles w) k"
  proof (intro allI impI)
    fix k
    assume ne: "k \<noteq> realpath L filein"
    have "count_list (handles w1) k = count_list (handles w) k"
      using o ne by simp
    moreover have "count_list (handles w2) k = count_list (handles w1) k"
      using z [rule_format, of k] fp ne by auto
    ultimately show "count_list (handles w') k = count_list (handles w) k"
      using s by simp
  qed
  have own: "count_list (handles w) (realpath L filein) \<le> count_list (handles w') (realpath L filein) \<and>
      count_list (handles w') (realpath L filein) \<le> count_list (handles w) (realpath L filein) + 1"
    using o [rule_format, of "realpath L filein"] z [rule_format, of "realpath L filein"]
      s [rule_format, of "realpath L filein"] by auto
  show ?thesis using g other own by simp
qed

theorem touches_only_own_files_witness:
  "open_reads_only pillow \<and> resize_reads_only pillow \<and> save_writes_own_file pillow \<and>
   open_handles pillow \<and> resize_handles pillow \<and> save_handles pillow \<and>
   ResizeImage pillow ''pics/in.jpeg'' ''pics/out.jpeg'' 480 659 (w0\<lparr>handles := [''pics/old.jpeg'']\<rparr>) =
     (Inr (), \<lparr>files = (files w0)(''pics/out.jpeg'' \<mapsto> Img (480, 659) RGB 1),
               handles = [''pics/old.jpeg'']\<rparr>) \<and>
   ''pics/old.jpeg'' \<noteq> realpath pillow ''pics/out.jpeg'' \<and>
   ''pics/old.jpeg'' \<noteq> realpath pillow ''pics/in.jpeg''"
proof -
  have r: "ResizeImage pillow ''pics/in.jpeg'' ''pics/out.jpeg'' 480 659 (w0\<lparr>handles := [''pics/old.jpeg'']\<rparr>) =
     (Inr (), \<lparr>files = (files w0)(''pics/out.jpeg'' \<mapsto> Img (480, 659) RGB 1),
               handles = [''pics/old.jpeg'']\<rparr>)"
    by (simp add: pillow_run)
  have d: "''pics/old.jpeg'' \<noteq> realpath pillow ''pics/out.jpeg''"
    "''pics/old.jpeg'' \<noteq> realpath pillow ''pics/in.jpeg''"
    by (simp_all add: pillow_run)
  show ?thesis
    using touches_only_own_files [OF pillow_open_reads_only pillow_resize_reads_only
        pillow_save_writes_own_file pillow_open_handles pillow_resize_handles
        pillow_save_handles r] r d
      pillow_open_reads_only pillow_resize_reads_only pillow_save_writes_own_file
      pillow_open_handles pillow_resize_handles pillow_save_handles
    by simp
qed

text \<open>
  Release on every exit path does not hold: the library keeps the file of a GIF open
  after its pixel data is loaded, so when \<open>resize\<close> then refuses the size the call
  fails with the handle on \<open>filein\<close> still open.
\<close>

theorem handle_left_open_counterexample:
  "handles w0 = [] \<and>
   ResizeImage pillow ''pics/anim.gif'' ''pics/out.png'' 0 659 w0 =
     (Inl ValueError, w0\<lparr>handles := [''pics/anim.gif'']\<rparr>)"
  by (simp add: pillow_run)

end
